theory Spec2Isabelle
  imports Complex_Main
begin

section \<open>kafcat: a command-line reader of a Kafka topic\<close>

text \<open>
  The program is one script, \<^verbatim>\<open>kafcat.py\<close>: it parses its arguments with Python's
  \<^verbatim>\<open>getopt\<close>, connects to a broker, builds a consumer for the topic, optionally seeks to
  the first message, writes every message to standard output and commits the consumer's
  position. Strings are Python 2 byte strings, modelled as \<^typ>\<open>string\<close>.
\<close>

subsection \<open>The standard library's \<^verbatim>\<open>getopt\<close>\<close>

text \<open>
  \<^verbatim>\<open>getopt.getopt\<close> is called at line 31. The functions below follow the module's code,
  function by function; a raised \<^verbatim>\<open>GetoptError(msg)\<close> is the value \<open>Inl msg\<close>.
\<close>

type_synonym opts = "(string \<times> string) list"

definition startswith :: "string \<Rightarrow> string \<Rightarrow> bool" where
  "startswith s p = (take (length p) s = p)"

definition endswith :: "string \<Rightarrow> string \<Rightarrow> bool" where
  "endswith s p = (length p \<le> length s \<and> drop (length s - length p) s = p)"

fun short_has_arg :: "char \<Rightarrow> string \<Rightarrow> string + bool" where
  "short_has_arg opt [] = Inl (''option -'' @ [opt] @ '' not recognized'')"
| "short_has_arg opt (c # cs) =
     (if opt = c \<and> c \<noteq> CHR '':'' then Inr (startswith cs '':'')
      else short_has_arg opt cs)"

fun do_shorts :: "opts \<Rightarrow> string \<Rightarrow> string \<Rightarrow> string list \<Rightarrow> string + (opts \<times> string list)" where
  "do_shorts opts [] shortopts args = Inr (opts, args)"
| "do_shorts opts (opt # optstring) shortopts args =
     (case short_has_arg opt shortopts of
        Inl e \<Rightarrow> Inl e
      | Inr True \<Rightarrow>
          (if optstring = [] then
             (case args of
                [] \<Rightarrow> Inl (''option -'' @ [opt] @ '' requires argument'')
              | a # args' \<Rightarrow> Inr (opts @ [(''-'' @ [opt], a)], args'))
           else Inr (opts @ [(''-'' @ [opt], optstring)], args))
      | Inr False \<Rightarrow> do_shorts (opts @ [(''-'' @ [opt], '''')]) optstring shortopts args)"

definition long_has_args :: "string \<Rightarrow> string list \<Rightarrow> string + (bool \<times> string)" where
  "long_has_args opt longopts =
     (let possibilities = filter (\<lambda>o'. startswith o' opt) longopts in
      if possibilities = [] then Inl (''option --'' @ opt @ '' not recognized'')
      else if opt \<in> set possibilities then Inr (False, opt)
      else if opt @ ''='' \<in> set possibilities then Inr (True, opt)
      else if length possibilities > 1 then Inl (''option --'' @ opt @ '' not a unique prefix'')
      else
        (let unique_match = hd possibilities;
             has_arg = endswith unique_match ''=''
         in Inr (has_arg, if has_arg then butlast unique_match else unique_match)))"

definition do_longs :: "opts \<Rightarrow> string \<Rightarrow> string list \<Rightarrow> string list \<Rightarrow> string + (opts \<times> string list)" where
  "do_longs opts opt0 longopts args =
     (let (opt1, optarg) =
            (if CHR ''='' \<in> set opt0
             then (takeWhile (\<lambda>c. c \<noteq> CHR ''='') opt0,
                   Some (tl (dropWhile (\<lambda>c. c \<noteq> CHR ''='') opt0)))
             else (opt0, None))
      in case long_has_args opt1 longopts of
           Inl e \<Rightarrow> Inl e
         | Inr (has_arg, opt) \<Rightarrow>
             (if has_arg then
                (case optarg of
                   None \<Rightarrow>
                     (case args of
                        [] \<Rightarrow> Inl (''option --'' @ opt @ '' requires argument'')
                      | a # args' \<Rightarrow> Inr (opts @ [(''--'' @ opt, a)], args'))
                 | Some v \<Rightarrow> Inr (opts @ [(''--'' @ opt, v)], args))
              else
                (case optarg of
                   Some v \<Rightarrow> Inl (''option --'' @ opt @ '' must not have an argument'')
                 | None \<Rightarrow> Inr (opts @ [(''--'' @ opt, '''')], args))))"

lemma do_shorts_length:
  "do_shorts opts optstring shortopts args = Inr (opts', args') \<Longrightarrow> length args' \<le> length args"
  by (induction opts optstring shortopts args rule: do_shorts.induct)
     (auto split: sum.splits bool.splits if_splits list.splits)

lemma do_longs_length:
  "do_longs opts opt longopts args = Inr (opts', args') \<Longrightarrow> length args' \<le> length args"
  by (auto simp: do_longs_def Let_def split: sum.splits if_splits list.splits option.splits prod.splits)

function getopt :: "opts \<Rightarrow> string list \<Rightarrow> string \<Rightarrow> string list \<Rightarrow> string + (opts \<times> string list)" where
  "getopt opts [] shortopts longopts = Inr (opts, [])"
| "getopt opts (a # args) shortopts longopts =
     (if startswith a ''-'' \<and> a \<noteq> ''-'' then
        (if a = ''--'' then Inr (opts, args)
         else if startswith a ''--'' then
           (case do_longs opts (drop 2 a) longopts args of
              Inl e \<Rightarrow> Inl e
            | Inr (opts', args') \<Rightarrow> getopt opts' args' shortopts longopts)
         else
           (case do_shorts opts (drop 1 a) shortopts args of
              Inl e \<Rightarrow> Inl e
            | Inr (opts', args') \<Rightarrow> getopt opts' args' shortopts longopts))
      else Inr (opts, a # args))"
  by pat_completeness auto
termination
  by (relation "measure (\<lambda>(opts, args, shortopts, longopts). length args)")
     (auto dest: do_shorts_length do_longs_length simp: less_Suc_eq_le)

declare getopt.simps [simp del]

subsection \<open>Built-ins used by the script\<close>

definition nl :: char where
  "nl = CHR 0x0A"

text \<open>\<^verbatim>\<open>os.path.basename\<close>: what follows the last slash.\<close>

definition basename :: "string \<Rightarrow> string" where
  "basename p = rev (takeWhile (\<lambda>c. c \<noteq> CHR ''/'') (rev p))"

text \<open>
  \<^verbatim>\<open>int(s)\<close> on a byte string: surrounding whitespace is dropped, one sign is allowed, the
  rest must be one or more decimal digits; anything else raises \<^verbatim>\<open>ValueError\<close>, the
  value \<open>None\<close>.
\<close>

definition isspace :: "char \<Rightarrow> bool" where
  "isspace c = (c \<in> set [CHR '' '', CHR 0x09, CHR 0x0A, CHR 0x0B, CHR 0x0C, CHR 0x0D])"

definition isdigit :: "char \<Rightarrow> bool" where
  "isdigit c = (c \<in> set ''0123456789'')"

definition digit_val :: "char \<Rightarrow> nat" where
  "digit_val c = (of_char c :: nat) - 48"

definition strip :: "string \<Rightarrow> string" where
  "strip s = rev (dropWhile isspace (rev (dropWhile isspace s)))"

definition py_int :: "string \<Rightarrow> int option" where
  "py_int s =
     (let t = strip s;
          (neg, ds) =
            (case t of
               [] \<Rightarrow> (False, t)
             | c # r \<Rightarrow>
                 if c = CHR ''-'' then (True, r)
                 else if c = CHR ''+'' then (False, r)
                 else (False, t))
      in if ds = [] \<or> \<not> list_all isdigit ds then None
         else
           (let n = int (foldl (\<lambda>a c. 10 * a + digit_val c) 0 ds)
            in Some (if neg then - n else n)))"

text \<open>\<^verbatim>\<open>str(n)\<close> of an integer: its decimal digits, after a minus sign when negative.\<close>

fun digits :: "nat \<Rightarrow> string" where
  "digits n =
     (if n < 10 then [''0123456789'' ! n]
      else digits (n div 10) @ [''0123456789'' ! (n mod 10)])"

declare digits.simps [simp del]

definition py_str :: "int \<Rightarrow> string" where
  "py_str i = (if i < 0 then ''-'' @ digits (nat (- i)) else digits (nat i))"

text \<open>
  \<^verbatim>\<open>dict(cmd_opts)\<close> at line 33: the pairs are stored from left to right, so a later pair
  replaces an earlier one with the same key. \<^verbatim>\<open>d.get(k, default)\<close> and \<^verbatim>\<open>k in d\<close> follow.
\<close>

definition dict :: "opts \<Rightarrow> (string \<rightharpoonup> string)" where
  "dict kvs = foldl (\<lambda>d (k, v). d(k \<mapsto> v)) Map.empty kvs"

definition get :: "(string \<rightharpoonup> string) \<Rightarrow> string \<Rightarrow> string \<Rightarrow> string" where
  "get d k dflt = (case d k of None \<Rightarrow> dflt | Some v \<Rightarrow> v)"

definition has_key :: "(string \<rightharpoonup> string) \<Rightarrow> string \<Rightarrow> bool" where
  "has_key d k = (d k \<noteq> None)"

subsection \<open>The world the script acts on\<close>

text \<open>
  The Kafka client library is not part of the script. Its calls are recorded as events,
  in the order the script makes them, together with the writes to standard output. The
  consumer is modelled as the data model describes it: one cursor, which starts at the
  position the broker stores for the group, is moved to the earliest offset by
  \<^verbatim>\<open>seek(0, 0)\<close>, advances by one with every message the iterator yields, and is
  stored in the broker by \<^verbatim>\<open>commit()\<close>. The per-partition offsets are this one cursor,
  and the earliest retained offset is 0.
\<close>

datatype event =
    KafkaClient string
  | SimpleConsumer string string "real option"
  | Seek int int
  | Commit nat
  | Next string
  | Write string

record world =
  stdout :: string
  stderr :: string
  trace :: "event list"
  committed :: nat

text \<open>
  How the process ends: \<open>Exit n\<close> is \<^verbatim>\<open>sys.exit(n)\<close> or, with 0, the end of the script;
  \<open>Uncaught e\<close> is an exception nobody handles (the interpreter prints a traceback and the
  status is 1); \<open>Hang\<close> is a call of the consumer's iterator that never returns.
\<close>

datatype outcome = Exit nat | Uncaught string | Hang

fun status :: "outcome \<Rightarrow> nat option" where
  "status (Exit n) = Some n"
| "status (Uncaught e) = Some 1"
| "status Hang = None"

definition emit :: "event \<Rightarrow> world \<Rightarrow> world" where
  "emit e w = w\<lparr>trace := trace w @ [e]\<rparr>"

definition stdout_write :: "string \<Rightarrow> world \<Rightarrow> world" where
  "stdout_write s w = emit (Write s) (w\<lparr>stdout := stdout w @ s\<rparr>)"

definition commit :: "nat \<Rightarrow> world \<Rightarrow> world" where
  "commit p w = emit (Commit p) (w\<lparr>committed := p\<rparr>)"

definition stderr_write :: "string \<Rightarrow> world \<Rightarrow> world" where
  "stderr_write s w = w\<lparr>stderr := stderr w @ s\<rparr>"

subsection \<open>The script\<close>

text \<open>\<^verbatim>\<open>usage\<close>, lines 13 to 25: the text goes to standard output, then \<^verbatim>\<open>sys.exit\<close>.\<close>

definition usage_text :: "string \<Rightarrow> string" where
  "usage_text argv0 =
     ''Usage: '' @ argv0 @ '' [options] topicname'' @ [nl] @
     '' Options:'' @ [nl] @
     ''  --host Host   Kafka node hostname. Default is '' @ [CHR 0x22] @ ''localhost'' @ [CHR 0x22] @ '';'' @ [nl] @
     ''  --port Port   Kafka node port number. Default is 9092;'' @ [nl] @
     ''  -b            extract from the beginning;'' @ [nl] @
     ''  -f            output appended data as the topic grows.'' @ [nl]"

definition usage :: "nat \<Rightarrow> string \<Rightarrow> world \<Rightarrow> outcome \<times> world" where
  "usage exitcode argv0 w = (Exit exitcode, stdout_write (usage_text (basename argv0)) w)"

text \<open>
  A \<^verbatim>\<open>KeyboardInterrupt\<close> is an input of the run: \<open>Some k\<close> says that \<open>k\<close> steps of the
  \<^verbatim>\<open>try\<close> block complete and the interrupt is raised during the next one, before its
  effect; \<open>None\<close> says that no interrupt arrives. A step is a call into the client
  library or a write to standard output. A run that ends before the interrupt never
  sees it.
\<close>

fun tick :: "nat option \<Rightarrow> nat option" where
  "tick None = None"
| "tick (Some k) = Some (k - 1)"

text \<open>
  Lines 58 to 62, the \<^verbatim>\<open>except KeyboardInterrupt\<close> clause. The argument is the variable
  \<^verbatim>\<open>consumer\<close>: \<open>None\<close>, or a consumer with its cursor.
\<close>

definition on_interrupt :: "nat option \<Rightarrow> world \<Rightarrow> outcome \<times> world" where
  "on_interrupt consumer w =
     (Exit 130, case consumer of None \<Rightarrow> w | Some p \<Rightarrow> commit p w)"

text \<open>Line 57, the commit after the loop, and the end of the script.\<close>

definition final_commit :: "nat option \<Rightarrow> nat \<Rightarrow> world \<Rightarrow> outcome \<times> world" where
  "final_commit intr p w =
     (if intr = Some 0 then on_interrupt (Some p) w else (Exit 0, commit p w))"

text \<open>
  Lines 54 to 57. The list holds the messages the iterator has still to yield and \<open>p\<close> is
  the consumer's cursor. Each round has two steps: the iterator yields a message (the
  cursor moves past it), and line 55 writes it. When no message is left, an iterator
  built with \<^verbatim>\<open>iter_timeout = None\<close> waits for ever, and one built with a timeout stops
  after that idle time.
\<close>

fun consume :: "real option \<Rightarrow> nat option \<Rightarrow> string list \<Rightarrow> nat \<Rightarrow> world \<Rightarrow> outcome \<times> world" where
  "consume iter_timeout intr [] p w =
     (case iter_timeout of
        None \<Rightarrow> (case intr of None \<Rightarrow> (Hang, w) | Some k \<Rightarrow> on_interrupt (Some p) w)
      | Some t \<Rightarrow>
          if intr = Some 0 then on_interrupt (Some p) w
          else final_commit (tick intr) p w)"
| "consume iter_timeout intr (m # ms) p w =
     (if intr = Some 0 then on_interrupt (Some p) w
      else
        (let w1 = emit (Next m) w; intr1 = tick intr
         in if intr1 = Some 0 then on_interrupt (Some (p + 1)) w1
            else consume iter_timeout (tick intr1) ms (p + 1) (stdout_write (m @ [nl]) w1)))"

text \<open>Lines 40 to 57, the \<^verbatim>\<open>try\<close> block, with \<open>tlog\<close> the messages of the topic.\<close>

definition try_block ::
  "(string \<rightharpoonup> string) \<Rightarrow> string \<Rightarrow> string list \<Rightarrow> nat option \<Rightarrow> world \<Rightarrow> outcome \<times> world" where
  "try_block cmd_opts topic tlog intr w =
     (let host = get cmd_opts ''--host'' ''localhost'' in
      case py_int (get cmd_opts ''--port'' ''9092'') of
        None \<Rightarrow> (Uncaught ''ValueError'', w)
      | Some port \<Rightarrow>
          if intr = Some 0 then on_interrupt None w
          else
            (let w1 = emit (KafkaClient (host @ '':'' @ py_str port)) w;
                 intr1 = tick intr
             in if intr1 = Some 0 then on_interrupt None w1
                else
                  (let iter_timeout = (if has_key cmd_opts ''-f'' then None else Some (1 / 2));
                       w2 = emit (SimpleConsumer ''kafcat'' topic iter_timeout) w1;
                       p = committed w2;
                       intr2 = tick intr1
                   in if has_key cmd_opts ''-b'' then
                        (if intr2 = Some 0 then on_interrupt (Some p) w2
                         else
                           (let w3 = emit (Seek 0 0) w2; intr3 = tick intr2
                            in if intr3 = Some 0 then on_interrupt (Some 0) w3
                               else consume iter_timeout (tick intr3) tlog 0 (commit 0 w3)))
                      else consume iter_timeout intr2 (drop p tlog) p w2)))"

text \<open>Lines 28 to 62, with \<open>argv0\<close> and \<open>args\<close> the two parts of \<^verbatim>\<open>sys.argv\<close>.\<close>

definition main ::
  "string \<Rightarrow> string list \<Rightarrow> string list \<Rightarrow> nat option \<Rightarrow> world \<Rightarrow> outcome \<times> world" where
  "main argv0 args tlog intr w =
     (case getopt [] args ''bf'' [''host='', ''port=''] of
        Inl exc \<Rightarrow> usage 1 argv0 (stderr_write (''Error: '' @ exc @ [nl]) w)
      | Inr (opt_list, cmd_args) \<Rightarrow>
          (let cmd_opts = dict opt_list
           in if length cmd_args \<noteq> 1 then usage 1 argv0 w
              else try_block cmd_opts (hd cmd_args) tlog intr w))"

definition start :: "nat \<Rightarrow> world" where
  "start c = \<lparr>stdout = [], stderr = [], trace = [], committed = c\<rparr>"

text \<open>
  An argument vector is malformed when \<^verbatim>\<open>getopt\<close> rejects it (an unknown flag, an
  option with the wrong number of values) or when it does not leave exactly one
  positional argument. It is invalid when it is malformed or its port is not an integer.
\<close>

definition malformed :: "string list \<Rightarrow> bool" where
  "malformed args =
     (case getopt [] args ''bf'' [''host='', ''port=''] of
        Inl exc \<Rightarrow> True
      | Inr (opt_list, cmd_args) \<Rightarrow> length cmd_args \<noteq> 1)"

definition invalid :: "string list \<Rightarrow> bool" where
  "invalid args =
     (case getopt [] args ''bf'' [''host='', ''port=''] of
        Inl exc \<Rightarrow> True
      | Inr (opt_list, cmd_args) \<Rightarrow>
          length cmd_args \<noteq> 1 \<or> py_int (get (dict opt_list) ''--port'' ''9092'') = None)"

fun is_connect :: "event \<Rightarrow> bool" where
  "is_connect (KafkaClient a) = True"
| "is_connect e = False"



text \<open>
  The events of the loop for a list of messages, two for each message, and the text
  they put on standard output.
\<close>

definition rounds :: "string list \<Rightarrow> event list" where
  "rounds ms = concat (map (\<lambda>m. [Next m, Write (m @ [nl])]) ms)"

definition lines :: "string list \<Rightarrow> string" where
  "lines ms = concat (map (\<lambda>m. m @ [nl]) ms)"

text \<open>
  What the parsed options fix for a run: the iterator's timeout (line 48), the messages
  the iterator has to yield and the cursor it starts from (lines 49 to 52, for a stored
  cursor \<open>c\<close>), and the number of steps before the first round of the loop.
\<close>

definition iter_timeout_of :: "(string \<rightharpoonup> string) \<Rightarrow> real option" where
  "iter_timeout_of d = (if has_key d ''-f'' then None else Some (1 / 2))"

definition feed :: "(string \<rightharpoonup> string) \<Rightarrow> nat \<Rightarrow> string list \<Rightarrow> string list" where
  "feed d c tlog = (if has_key d ''-b'' then tlog else drop c tlog)"

definition first_pos :: "(string \<rightharpoonup> string) \<Rightarrow> nat \<Rightarrow> nat" where
  "first_pos d c = (if has_key d ''-b'' then 0 else c)"

definition setup_steps :: "(string \<rightharpoonup> string) \<Rightarrow> nat" where
  "setup_steps d = (if has_key d ''-b'' then 4 else 2)"

text \<open>
  The steps of a whole one-shot run: the set-up, two for each message, the idle wait
  that ends the iteration, and the last commit.
\<close>

definition run_steps :: "(string \<rightharpoonup> string) \<Rightarrow> nat \<Rightarrow> nat" where
  "run_steps d n = setup_steps d + 2 * n + 2"

text \<open>The number of messages a run gets to write, out of \<open>n\<close>.\<close>

definition written :: "(string \<rightharpoonup> string) \<Rightarrow> nat option \<Rightarrow> nat \<Rightarrow> nat" where
  "written d intr n =
     (case intr of None \<Rightarrow> n | Some k \<Rightarrow> min n ((k - setup_steps d) div 2))"

text \<open>
  The interrupt falls between the two steps of a round: the iterator has yielded a
  message and line 55 has not written it.
\<close>

definition between_fetch_and_write :: "(string \<rightharpoonup> string) \<Rightarrow> nat option \<Rightarrow> nat \<Rightarrow> bool" where
  "between_fetch_and_write d intr n =
     (case intr of
        None \<Rightarrow> False
      | Some k \<Rightarrow> setup_steps d \<le> k \<and> odd (k - setup_steps d) \<and> k - setup_steps d < 2 * n)"

fun is_write :: "event \<Rightarrow> bool" where
  "is_write (Write s) = True"
| "is_write e = False"

fun is_seek :: "event \<Rightarrow> bool" where
  "is_seek (Seek a b) = True"
| "is_seek e = False"

fun is_commit :: "event \<Rightarrow> bool" where
  "is_commit (Commit p) = True"
| "is_commit e = False"

text \<open>
  The consumer's cursor after a sequence of events, from the cursor \<open>p\<close> before them.
\<close>

fun cursor :: "nat \<Rightarrow> event list \<Rightarrow> nat" where
  "cursor p [] = p"
| "cursor p (Seek a b # es) = cursor 0 es"
| "cursor p (Next m # es) = cursor (Suc p) es"
| "cursor p (e # es) = cursor p es"

text \<open>
  The position the output stands for after a sequence of events: one past the last
  message written, or the position the consumer was put at when nothing was written
  since.
\<close>

fun printed :: "nat \<Rightarrow> event list \<Rightarrow> nat" where
  "printed q [] = q"
| "printed q (Seek a b # es) = printed 0 es"
| "printed q (Write s # es) = printed (Suc q) es"
| "printed q (e # es) = printed q es"

text \<open>
  Every commit of the sequence stores a position that is not behind the output and at
  most \<open>d\<close> messages ahead of it.
\<close>

fun commits_within :: "nat \<Rightarrow> nat \<Rightarrow> event list \<Rightarrow> bool" where
  "commits_within d q [] = True"
| "commits_within d q (Commit p # es) = (q \<le> p \<and> p \<le> q + d \<and> commits_within d q es)"
| "commits_within d q (Seek a b # es) = commits_within d 0 es"
| "commits_within d q (Write s # es) = commits_within d (Suc q) es"
| "commits_within d q (e # es) = commits_within d q es"

text \<open>
  The events of the steps of a run that nothing interrupts, up to the end of the loop,
  and the events of a run with the interrupt \<open>intr\<close>: an interrupt after \<open>k\<close> steps
  leaves the events of these steps, and after them the commit of the handler when the
  consumer exists.
\<close>

definition setup_events :: "(string \<rightharpoonup> string) \<Rightarrow> int \<Rightarrow> string \<Rightarrow> event list" where
  "setup_events d port topic =
     [KafkaClient (get d ''--host'' ''localhost'' @ '':'' @ py_str port),
      SimpleConsumer ''kafcat'' topic (iter_timeout_of d)]
     @ (if has_key d ''-b'' then [Seek 0 0, Commit 0] else [])"

definition steps_of :: "(string \<rightharpoonup> string) \<Rightarrow> int \<Rightarrow> string \<Rightarrow> nat \<Rightarrow> string list \<Rightarrow> event list" where
  "steps_of d port topic c tlog = setup_events d port topic @ rounds (feed d c tlog)"

definition run_events ::
  "(string \<rightharpoonup> string) \<Rightarrow> int \<Rightarrow> string \<Rightarrow> nat \<Rightarrow> string list \<Rightarrow> nat option \<Rightarrow> event list" where
  "run_events d port topic c tlog intr =
     (let steps = steps_of d port topic c tlog
      in case intr of
           None \<Rightarrow> steps @ (if has_key d ''-f'' then [] else [Commit (cursor c steps)])
         | Some k \<Rightarrow>
             take k steps @ (if k < 2 then [] else [Commit (cursor c (take k steps))]))"

definition connected :: "(string \<rightharpoonup> string) \<Rightarrow> int \<Rightarrow> string \<Rightarrow> world \<Rightarrow> world" where
  "connected d port topic w =
     emit (SimpleConsumer ''kafcat'' topic (iter_timeout_of d))
       (emit (KafkaClient (get d ''--host'' ''localhost'' @ '':'' @ py_str port)) w)"

section \<open>Properties\<close>

subsection \<open>Basic facts\<close>

lemma emit_simps:
  "trace (emit e w) = trace w @ [e]"
  "stdout (emit e w) = stdout w"
  "stderr (emit e w) = stderr w"
  "committed (emit e w) = committed w"
  by (simp_all add: emit_def)

lemma stdout_write_simps:
  "trace (stdout_write s w) = trace w @ [Write s]"
  "stdout (stdout_write s w) = stdout w @ s"
  "stderr (stdout_write s w) = stderr w"
  "committed (stdout_write s w) = committed w"
  by (simp_all add: stdout_write_def emit_def)

lemma commit_simps:
  "trace (commit p w) = trace w @ [Commit p]"
  "stdout (commit p w) = stdout w"
  "stderr (commit p w) = stderr w"
  "committed (commit p w) = p"
  by (simp_all add: commit_def emit_def)

lemma stderr_write_simps:
  "trace (stderr_write s w) = trace w"
  "stdout (stderr_write s w) = stdout w"
  "stderr (stderr_write s w) = stderr w @ s"
  "committed (stderr_write s w) = committed w"
  by (simp_all add: stderr_write_def)

lemma start_simps:
  "trace (start c) = []"
  "stdout (start c) = []"
  "stderr (start c) = []"
  "committed (start c) = c"
  by (simp_all add: start_def)

lemma main_malformed:
  assumes "malformed args"
  shows "fst (main argv0 args tlog intr w) = Exit 1"
    and "stdout (snd (main argv0 args tlog intr w)) = stdout w @ usage_text (basename argv0)"
    and "trace (snd (main argv0 args tlog intr w)) = trace w @ [Write (usage_text (basename argv0))]"
    and "committed (snd (main argv0 args tlog intr w)) = committed w"
  using assms
  by (auto simp: malformed_def main_def usage_def stdout_write_simps stderr_write_simps
           split: sum.splits prod.splits)

lemma main_malformed_stderr:
  assumes "malformed args"
  shows "stderr (snd (main argv0 args tlog intr w)) =
           stderr w @
           (case getopt [] args ''bf'' [''host='', ''port=''] of
              Inl exc \<Rightarrow> ''Error: '' @ exc @ [nl]
            | Inr parsed \<Rightarrow> [])"
  using assms
  by (auto simp: malformed_def main_def usage_def stdout_write_simps stderr_write_simps
           split: sum.splits prod.splits)

lemma main_bad_port:
  assumes "getopt [] args ''bf'' [''host='', ''port=''] = Inr (opt_list, [topic])"
    and "py_int (get (dict opt_list) ''--port'' ''9092'') = None"
  shows "main argv0 args tlog intr w = (Uncaught ''ValueError'', w)"
  using assms by (simp add: main_def try_block_def)

lemma main_valid:
  assumes "getopt [] args ''bf'' [''host='', ''port=''] = Inr (opt_list, [topic])"
  shows "main argv0 args tlog intr w = try_block (dict opt_list) topic tlog intr w"
  using assms by (simp add: main_def)

subsection \<open>The loop in closed form\<close>

lemma rounds_simps:
  "rounds [] = []"
  "rounds (m # ms) = Next m # Write (m @ [nl]) # rounds ms"
  by (simp_all add: rounds_def)

lemma lines_simps:
  "lines [] = []"
  "lines (m # ms) = m @ [nl] @ lines ms"
  by (simp_all add: lines_def)

lemma on_interrupt_simps:
  "fst (on_interrupt c w) = Exit 130"
  "trace (snd (on_interrupt (Some p) w)) = trace w @ [Commit p]"
  "stdout (snd (on_interrupt c w)) = stdout w"
  "stderr (snd (on_interrupt c w)) = stderr w"
  "committed (snd (on_interrupt (Some p) w)) = p"
  "snd (on_interrupt None w) = w"
  by (simp_all add: on_interrupt_def commit_simps split: option.splits)

lemma consume_None:
  "fst (consume t None ms p w) = (if t = None then Hang else Exit 0)"
  "trace (snd (consume t None ms p w)) =
     trace w @ rounds ms @ (if t = None then [] else [Commit (p + length ms)])"
  "stdout (snd (consume t None ms p w)) = stdout w @ lines ms"
  "stderr (snd (consume t None ms p w)) = stderr w"
  "committed (snd (consume t None ms p w)) = (if t = None then committed w else p + length ms)"
  by (induction ms arbitrary: p w;
      simp add: rounds_simps lines_simps final_commit_def commit_simps emit_simps
        stdout_write_simps Let_def split: option.splits)+

lemma steps_cases: "k = 0 \<or> k = Suc 0 \<or> (\<exists>j. k = Suc (Suc j))"
  by arith

lemma consume_Nil_Some:
  "consume None (Some k) [] p w = on_interrupt (Some p) w"
  "consume (Some x) (Some 0) [] p w = on_interrupt (Some p) w"
  "consume (Some x) (Some (Suc 0)) [] p w = on_interrupt (Some p) w"
  "consume (Some x) (Some (Suc (Suc j))) [] p w = (Exit 0, commit p w)"
  by (simp_all add: final_commit_def)

lemma consume_Cons_Some:
  "consume t (Some 0) (m # ms) p w = on_interrupt (Some p) w"
  "consume t (Some (Suc 0)) (m # ms) p w = on_interrupt (Some (Suc p)) (emit (Next m) w)"
  "consume t (Some (Suc (Suc j))) (m # ms) p w =
     consume t (Some j) ms (Suc p) (stdout_write (m @ [nl]) (emit (Next m) w))"
  by (simp_all add: Let_def)

lemmas step_simps = consume_Nil_Some consume_Cons_Some on_interrupt_simps commit_simps
  emit_simps stdout_write_simps rounds_simps lines_simps final_commit_def

lemma consume_Some_fst:
  "fst (consume t (Some k) ms p w) =
     (if t \<noteq> None \<and> 2 * length ms + 2 \<le> k then Exit 0 else Exit 130)"
proof (induction ms arbitrary: k p w)
  case Nil
  show ?case using steps_cases [of k] by (cases t) (auto simp: step_simps)
next
  case (Cons m ms)
  show ?case using steps_cases [of k] Cons.IH by (cases t) (auto simp: step_simps)
qed

lemma consume_Some_trace:
  "trace (snd (consume t (Some k) ms p w)) =
     trace w @ take k (rounds ms) @ [Commit (p + min (length ms) ((k + 1) div 2))]"
proof (induction ms arbitrary: k p w)
  case Nil
  show ?case using steps_cases [of k] by (cases t) (auto simp: step_simps)
next
  case (Cons m ms)
  show ?case using steps_cases [of k] by (auto simp: step_simps Cons.IH)
qed

lemma consume_Some_stdout:
  "stdout (snd (consume t (Some k) ms p w)) = stdout w @ lines (take (k div 2) ms)"
proof (induction ms arbitrary: k p w)
  case Nil
  show ?case using steps_cases [of k] by (cases t) (auto simp: step_simps)
next
  case (Cons m ms)
  show ?case using steps_cases [of k] by (auto simp: step_simps Cons.IH)
qed

lemma consume_Some_stderr:
  "stderr (snd (consume t (Some k) ms p w)) = stderr w"
proof (induction ms arbitrary: k p w)
  case Nil
  show ?case using steps_cases [of k] by (cases t) (auto simp: step_simps)
next
  case (Cons m ms)
  show ?case using steps_cases [of k] by (auto simp: step_simps Cons.IH)
qed

lemma consume_Some_committed:
  "committed (snd (consume t (Some k) ms p w)) = p + min (length ms) ((k + 1) div 2)"
proof (induction ms arbitrary: k p w)
  case Nil
  show ?case using steps_cases [of k] by (cases t) (auto simp: step_simps)
next
  case (Cons m ms)
  show ?case using steps_cases [of k] by (auto simp: step_simps Cons.IH)
qed

subsection \<open>A run in closed form\<close>

lemma try_block_unfold:
  assumes "py_int (get d ''--port'' ''9092'') = Some port"
  shows "try_block d topic tlog (Some 0) w = (Exit 130, w)"
    and "try_block d topic tlog (Some (Suc 0)) w =
           (Exit 130, emit (KafkaClient (get d ''--host'' ''localhost'' @ '':'' @ py_str port)) w)"
    and "\<not> has_key d ''-b'' \<Longrightarrow>
         try_block d topic tlog (Some (Suc (Suc k))) w =
           consume (iter_timeout_of d) (Some k) (drop (committed w) tlog) (committed w)
             (connected d port topic w)"
    and "\<not> has_key d ''-b'' \<Longrightarrow>
         try_block d topic tlog None w =
           consume (iter_timeout_of d) None (drop (committed w) tlog) (committed w)
             (connected d port topic w)"
    and "has_key d ''-b'' \<Longrightarrow>
         try_block d topic tlog (Some (Suc (Suc 0))) w =
           on_interrupt (Some (committed w)) (connected d port topic w)"
    and "has_key d ''-b'' \<Longrightarrow>
         try_block d topic tlog (Some (Suc (Suc (Suc 0)))) w =
           on_interrupt (Some 0) (emit (Seek 0 0) (connected d port topic w))"
    and "has_key d ''-b'' \<Longrightarrow>
         try_block d topic tlog (Some (Suc (Suc (Suc (Suc k))))) w =
           consume (iter_timeout_of d) (Some k) tlog 0
             (commit 0 (emit (Seek 0 0) (connected d port topic w)))"
    and "has_key d ''-b'' \<Longrightarrow>
         try_block d topic tlog None w =
           consume (iter_timeout_of d) None tlog 0
             (commit 0 (emit (Seek 0 0) (connected d port topic w)))"
  using assms
  by (simp_all add: try_block_def connected_def iter_timeout_of_def Let_def on_interrupt_def
        emit_simps del: consume.simps)

lemma connected_simps:
  "trace (connected d port topic w) =
     trace w @ [KafkaClient (get d ''--host'' ''localhost'' @ '':'' @ py_str port),
                SimpleConsumer ''kafcat'' topic (iter_timeout_of d)]"
  "stdout (connected d port topic w) = stdout w"
  "stderr (connected d port topic w) = stderr w"
  "committed (connected d port topic w) = committed w"
  by (simp_all add: connected_def emit_simps)


lemma cursor_append: "cursor p (xs @ ys) = cursor (cursor p xs) ys"
  by (induction p xs rule: cursor.induct) simp_all

lemma printed_append: "printed q (xs @ ys) = printed (printed q xs) ys"
  by (induction q xs rule: printed.induct) simp_all

lemma commits_within_append:
  "commits_within d q (xs @ ys) = (commits_within d q xs \<and> commits_within d (printed q xs) ys)"
  by (induction d q xs rule: commits_within.induct) auto

lemma cursor_take_rounds:
  "cursor p (take k (rounds ms)) = p + min (length ms) ((k + 1) div 2)"
proof (induction ms arbitrary: k p)
  case Nil
  show ?case by (simp add: rounds_simps)
next
  case (Cons m ms)
  show ?case using steps_cases [of k] by (auto simp: rounds_simps Cons.IH)
qed

lemma cursor_rounds: "cursor p (rounds ms) = p + length ms"
  by (induction ms arbitrary: p) (simp_all add: rounds_simps)

lemma printed_take_rounds:
  "printed q (take k (rounds ms)) = q + min (length ms) (k div 2)"
proof (induction ms arbitrary: k q)
  case Nil
  show ?case by (simp add: rounds_simps)
next
  case (Cons m ms)
  show ?case using steps_cases [of k] by (auto simp: rounds_simps Cons.IH)
qed

lemma printed_rounds: "printed q (rounds ms) = q + length ms"
  by (induction ms arbitrary: q) (simp_all add: rounds_simps)

lemma commits_within_take_rounds: "commits_within d q (take k (rounds ms))"
proof (induction ms arbitrary: k q)
  case Nil
  show ?case by (simp add: rounds_simps)
next
  case (Cons m ms)
  show ?case using steps_cases [of k] by (auto simp: rounds_simps Cons.IH)
qed

lemma commits_within_rounds: "commits_within d q (rounds ms)"
  using commits_within_take_rounds [of d q "length (rounds ms)" ms] by simp

lemma writes_take_rounds:
  "filter is_write (take k (rounds ms)) = map (\<lambda>m. Write (m @ [nl])) (take (k div 2) ms)"
proof (induction ms arbitrary: k)
  case Nil
  show ?case by (simp add: rounds_simps)
next
  case (Cons m ms)
  show ?case using steps_cases [of k] by (auto simp: rounds_simps Cons.IH)
qed

lemma writes_rounds: "filter is_write (rounds ms) = map (\<lambda>m. Write (m @ [nl])) ms"
  by (induction ms) (simp_all add: rounds_simps)

lemma length_rounds: "length (rounds ms) = 2 * length ms"
  by (induction ms) (simp_all add: rounds_simps)

lemma run_trace_None:
  assumes "py_int (get d ''--port'' ''9092'') = Some port"
  shows "trace (snd (try_block d topic tlog None w)) =
           trace w @ run_events d port topic (committed w) tlog None"
proof (cases "has_key d ''-b''")
  case True
  then show ?thesis
    by (simp add: try_block_unfold [OF assms] consume_None connected_simps
          commit_simps emit_simps run_events_def steps_of_def setup_events_def feed_def
          cursor_append cursor_rounds iter_timeout_of_def Let_def del: consume.simps)
next
  case False
  then show ?thesis
    by (simp add: try_block_unfold [OF assms] consume_None connected_simps
          commit_simps emit_simps run_events_def steps_of_def setup_events_def feed_def
          cursor_append cursor_rounds iter_timeout_of_def Let_def del: consume.simps)
qed


lemmas run_simps = consume_Some_trace consume_None connected_simps commit_simps emit_simps
  on_interrupt_simps run_events_def steps_of_def setup_events_def feed_def cursor_append
  cursor_rounds cursor_take_rounds iter_timeout_of_def Let_def

lemma setup_cases_Suc:
  "k = 0 \<or> k = Suc 0 \<or> k = Suc (Suc 0) \<or> k = Suc (Suc (Suc 0))
   \<or> (\<exists>j. k = Suc (Suc (Suc (Suc j))))"
  by arith

lemma run_trace_Some:
  assumes "py_int (get d ''--port'' ''9092'') = Some port"
  shows "trace (snd (try_block d topic tlog (Some k) w)) =
           trace w @ run_events d port topic (committed w) tlog (Some k)"
proof -
  note u = try_block_unfold [OF assms, of topic tlog]
  have c0: "k = 0 \<Longrightarrow> ?thesis"
    by (simp add: u run_simps del: consume.simps)
  have c1: "k = Suc 0 \<Longrightarrow> ?thesis"
    by (simp add: u run_simps del: consume.simps)
  have c2: "k = Suc (Suc 0) \<Longrightarrow> ?thesis"
    by (cases "has_key d ''-b''") (simp_all add: u run_simps del: consume.simps)
  have c3: "k = Suc (Suc (Suc 0)) \<Longrightarrow> ?thesis"
    by (cases "has_key d ''-b''") (simp_all add: u run_simps rounds_simps del: consume.simps)
  have c4: "k = Suc (Suc (Suc (Suc j))) \<Longrightarrow> ?thesis" for j
    by (cases "has_key d ''-b''") (simp_all add: u run_simps del: consume.simps)
  show ?thesis
    using setup_cases_Suc [of k] c0 c1 c2 c3 c4 by blast
qed


lemma run_trace:
  assumes "py_int (get d ''--port'' ''9092'') = Some port"
  shows "trace (snd (try_block d topic tlog intr w)) =
           trace w @ run_events d port topic (committed w) tlog intr"
  using run_trace_None [OF assms] run_trace_Some [OF assms] by (cases intr) simp_all

lemma run_steps_le:
  "has_key d ''-b'' \<Longrightarrow> (run_steps d n \<le> Suc (Suc (Suc (Suc j)))) = (2 * n + 2 \<le> j)"
  "\<not> has_key d ''-b'' \<Longrightarrow> (run_steps d n \<le> Suc (Suc j)) = (2 * n + 2 \<le> j)"
  "\<not> run_steps d n \<le> Suc 0"
  "0 < run_steps d n"
  "has_key d ''-b'' \<Longrightarrow> \<not> run_steps d n \<le> Suc (Suc 0)"
  "has_key d ''-b'' \<Longrightarrow> \<not> run_steps d n \<le> Suc (Suc (Suc 0))"
  by (simp_all add: run_steps_def setup_steps_def)

lemmas outcome_simps = consume_Some_fst consume_None on_interrupt_simps iter_timeout_of_def
  run_steps_le feed_def connected_simps commit_simps emit_simps

lemma run_outcome:
  assumes "py_int (get d ''--port'' ''9092'') = Some port"
  shows "fst (try_block d topic tlog intr w) =
           (case intr of
              None \<Rightarrow> if has_key d ''-f'' then Hang else Exit 0
            | Some k \<Rightarrow>
                if \<not> has_key d ''-f'' \<and> run_steps d (length (feed d (committed w) tlog)) \<le> k
                then Exit 0 else Exit 130)"
proof (cases intr)
  case None
  then show ?thesis
    by (cases "has_key d ''-b''")
       (simp_all add: try_block_unfold [OF assms] outcome_simps del: consume.simps)
next
  case (Some k)
  note u = try_block_unfold [OF assms, of topic tlog]
  have c0: "k = 0 \<Longrightarrow> ?thesis"
    by (simp add: Some u outcome_simps del: consume.simps)
  have c1: "k = Suc 0 \<Longrightarrow> ?thesis"
    by (simp add: Some u outcome_simps del: consume.simps)
  have c2: "k = Suc (Suc 0) \<Longrightarrow> ?thesis"
    by (cases "has_key d ''-b''") (simp_all add: Some u outcome_simps del: consume.simps)
  have c3: "k = Suc (Suc (Suc 0)) \<Longrightarrow> ?thesis"
    by (cases "has_key d ''-b''") (simp_all add: Some u outcome_simps del: consume.simps)
  have c4: "k = Suc (Suc (Suc (Suc j))) \<Longrightarrow> ?thesis" for j
    by (cases "has_key d ''-b''"; cases "has_key d ''-f''")
       (simp_all add: Some u outcome_simps del: consume.simps)
  show ?thesis
    using setup_cases_Suc [of k] c0 c1 c2 c3 c4 by blast
qed

lemmas stdout_simps = consume_Some_stdout consume_None on_interrupt_simps iter_timeout_of_def
  written_def setup_steps_def feed_def connected_simps commit_simps emit_simps lines_simps

lemma run_stdout:
  assumes "py_int (get d ''--port'' ''9092'') = Some port"
  shows "stdout (snd (try_block d topic tlog intr w)) =
           stdout w @ lines (take (written d intr (length (feed d (committed w) tlog)))
                               (feed d (committed w) tlog))"
proof (cases intr)
  case None
  then show ?thesis
    by (cases "has_key d ''-b''")
       (simp_all add: try_block_unfold [OF assms] stdout_simps del: consume.simps)
next
  case (Some k)
  note u = try_block_unfold [OF assms, of topic tlog]
  have c0: "k = 0 \<Longrightarrow> ?thesis"
    by (simp add: Some u stdout_simps del: consume.simps)
  have c1: "k = Suc 0 \<Longrightarrow> ?thesis"
    by (simp add: Some u stdout_simps del: consume.simps)
  have c2: "k = Suc (Suc 0) \<Longrightarrow> ?thesis"
    by (cases "has_key d ''-b''") (simp_all add: Some u stdout_simps del: consume.simps)
  have c3: "k = Suc (Suc (Suc 0)) \<Longrightarrow> ?thesis"
    by (cases "has_key d ''-b''") (simp_all add: Some u stdout_simps del: consume.simps)
  have c4: "k = Suc (Suc (Suc (Suc j))) \<Longrightarrow> ?thesis" for j
    by (cases "has_key d ''-b''")
       (simp_all add: Some u stdout_simps min_def take_all del: consume.simps)
  show ?thesis
    using setup_cases_Suc [of k] c0 c1 c2 c3 c4 by blast
qed

lemma run_stderr:
  assumes "py_int (get d ''--port'' ''9092'') = Some port"
  shows "stderr (snd (try_block d topic tlog intr w)) = stderr w"
proof (cases intr)
  case None
  then show ?thesis
    by (cases "has_key d ''-b''")
       (simp_all add: try_block_unfold [OF assms] stdout_simps del: consume.simps)
next
  case (Some k)
  note u = try_block_unfold [OF assms, of topic tlog]
  have c0: "k = 0 \<Longrightarrow> ?thesis"
    by (simp add: Some u stdout_simps del: consume.simps)
  have c1: "k = Suc 0 \<Longrightarrow> ?thesis"
    by (simp add: Some u stdout_simps del: consume.simps)
  have c2: "k = Suc (Suc 0) \<Longrightarrow> ?thesis"
    by (cases "has_key d ''-b''")
       (simp_all add: Some u stdout_simps consume_Some_stderr del: consume.simps)
  have c3: "k = Suc (Suc (Suc 0)) \<Longrightarrow> ?thesis"
    by (cases "has_key d ''-b''")
       (simp_all add: Some u stdout_simps consume_Some_stderr del: consume.simps)
  have c4: "k = Suc (Suc (Suc (Suc j))) \<Longrightarrow> ?thesis" for j
    by (cases "has_key d ''-b''")
       (simp_all add: Some u stdout_simps consume_Some_stderr del: consume.simps)
  show ?thesis
    using setup_cases_Suc [of k] c0 c1 c2 c3 c4 by blast
qed

lemmas committed_simps = consume_Some_committed consume_None on_interrupt_simps
  iter_timeout_of_def first_pos_def steps_of_def setup_events_def feed_def connected_simps
  commit_simps emit_simps cursor_append cursor_rounds cursor_take_rounds rounds_simps

lemma run_committed:
  assumes "py_int (get d ''--port'' ''9092'') = Some port"
  shows "committed (snd (try_block d topic tlog intr w)) =
           (case intr of
              None \<Rightarrow>
                if has_key d ''-f'' then first_pos d (committed w)
                else cursor (committed w) (steps_of d port topic (committed w) tlog)
            | Some k \<Rightarrow>
                if k < 2 then committed w
                else cursor (committed w) (take k (steps_of d port topic (committed w) tlog)))"
proof (cases intr)
  case None
  then show ?thesis
    by (cases "has_key d ''-b''")
       (simp_all add: try_block_unfold [OF assms] committed_simps del: consume.simps)
next
  case (Some k)
  note u = try_block_unfold [OF assms, of topic tlog]
  have c0: "k = 0 \<Longrightarrow> ?thesis"
    by (simp add: Some u committed_simps del: consume.simps)
  have c1: "k = Suc 0 \<Longrightarrow> ?thesis"
    by (simp add: Some u committed_simps del: consume.simps)
  have c2: "k = Suc (Suc 0) \<Longrightarrow> ?thesis"
    by (cases "has_key d ''-b''") (simp_all add: Some u committed_simps del: consume.simps)
  have c3: "k = Suc (Suc (Suc 0)) \<Longrightarrow> ?thesis"
    by (cases "has_key d ''-b''") (simp_all add: Some u committed_simps del: consume.simps)
  have c4: "k = Suc (Suc (Suc (Suc j))) \<Longrightarrow> ?thesis" for j
    by (cases "has_key d ''-b''") (simp_all add: Some u committed_simps del: consume.simps)
  show ?thesis
    using setup_cases_Suc [of k] c0 c1 c2 c3 c4 by blast
qed

lemma valid_run:
  assumes g: "getopt [] args ''bf'' [''host='', ''port=''] = Inr (opt_list, [topic])"
    and p: "py_int (get (dict opt_list) ''--port'' ''9092'') = Some port"
  shows "trace (snd (main argv0 args tlog intr (start c))) =
           run_events (dict opt_list) port topic c tlog intr"
    and "fst (main argv0 args tlog intr (start c)) =
           (case intr of
              None \<Rightarrow> if has_key (dict opt_list) ''-f'' then Hang else Exit 0
            | Some k \<Rightarrow>
                if \<not> has_key (dict opt_list) ''-f''
                   \<and> run_steps (dict opt_list) (length (feed (dict opt_list) c tlog)) \<le> k
                then Exit 0 else Exit 130)"
    and "stdout (snd (main argv0 args tlog intr (start c))) =
           lines (take (written (dict opt_list) intr (length (feed (dict opt_list) c tlog)))
                    (feed (dict opt_list) c tlog))"
    and "stderr (snd (main argv0 args tlog intr (start c))) = []"
    and "committed (snd (main argv0 args tlog intr (start c))) =
           (case intr of
              None \<Rightarrow>
                if has_key (dict opt_list) ''-f'' then first_pos (dict opt_list) c
                else cursor c (steps_of (dict opt_list) port topic c tlog)
            | Some k \<Rightarrow>
                if k < 2 then c
                else cursor c (take k (steps_of (dict opt_list) port topic c tlog)))"
  using run_trace [OF p, of topic tlog intr "start c", unfolded start_simps]
    run_outcome [OF p, of topic tlog intr "start c", unfolded start_simps]
    run_stdout [OF p, of topic tlog intr "start c", unfolded start_simps]
    run_stderr [OF p, of topic tlog intr "start c", unfolded start_simps]
    run_committed [OF p, of topic tlog intr "start c", unfolded start_simps]
  by (simp_all add: main_valid [OF g])

lemma cursor_steps:
  "cursor c (steps_of d port topic c tlog) = first_pos d c + length (feed d c tlog)"
  by (simp add: steps_of_def setup_events_def cursor_append cursor_rounds first_pos_def)

lemma lines_drop_all: "length tlog \<le> q \<Longrightarrow> lines (drop q tlog) = []"
  by (simp add: lines_def)

lemma filter_take_Nil: "filter P xs = [] \<Longrightarrow> filter P (take k xs) = []"
  by (auto simp: filter_empty_conv dest: in_set_takeD)

lemma rounds_no_seek: "filter is_seek (rounds ms) = []"
  by (induction ms) (simp_all add: rounds_simps)

lemma rounds_no_commit: "filter is_commit (rounds ms) = []"
  by (induction ms) (simp_all add: rounds_simps)

lemma setup_no_write: "filter is_write (setup_events d port topic) = []"
  by (simp add: setup_events_def)

lemma length_setup: "length (setup_events d port topic) = setup_steps d"
  by (simp add: setup_events_def setup_steps_def)

lemma take_written: "take (min (length ms) x) ms = take x ms"
  by (simp add: min_def)

lemma run_writes:
  "filter is_write (run_events d port topic c tlog intr) =
     map (\<lambda>m. Write (m @ [nl]))
       (take (written d intr (length (feed d c tlog))) (feed d c tlog))"
proof (cases intr)
  case None
  then show ?thesis
    by (simp add: run_events_def Let_def steps_of_def setup_no_write writes_rounds written_def)
next
  case (Some k)
  then show ?thesis
    by (simp add: run_events_def Let_def steps_of_def setup_no_write filter_take_Nil
          writes_take_rounds written_def length_setup take_written)
qed

lemma steps_no_commit_before_consumer:
  "k < 2 \<Longrightarrow> filter is_commit (take k (steps_of d port topic c tlog)) = []"
  using steps_cases [of k] by (auto simp: steps_of_def setup_events_def)

lemma setup_b:
  "has_key d ''-b'' \<Longrightarrow>
   setup_events d port topic =
     [KafkaClient (get d ''--host'' ''localhost'' @ '':'' @ py_str port),
      SimpleConsumer ''kafcat'' topic (iter_timeout_of d), Seek 0 0, Commit 0]"
  "\<not> has_key d ''-b'' \<Longrightarrow>
   setup_events d port topic =
     [KafkaClient (get d ''--host'' ''localhost'' @ '':'' @ py_str port),
      SimpleConsumer ''kafcat'' topic (iter_timeout_of d)]"
  by (simp_all add: setup_events_def)

lemma past_setup:
  "intr \<notin> {Some 0, Some 1, Some 2, Some 3} \<Longrightarrow> intr = Some k \<Longrightarrow>
   \<exists>j. k = Suc (Suc (Suc (Suc j)))"
  for k :: nat
  using setup_cases_Suc [of k] by (auto simp: numeral_2_eq_2 numeral_3_eq_3)




lemma steps_within: "commits_within dd c (steps_of d port topic c tlog)"
  by (simp add: steps_of_def setup_events_def commits_within_append commits_within_rounds)

lemma commits_within_take: "commits_within dd q xs \<Longrightarrow> commits_within dd q (take k xs)"
  using commits_within_append [of dd q "take k xs" "drop k xs"] by simp

lemma positions_at_end:
  "printed c (steps_of d port topic c tlog) = cursor c (steps_of d port topic c tlog)"
  by (simp add: steps_of_def setup_events_def printed_append cursor_append printed_rounds
        cursor_rounds)

lemma gap_Suc:
  "odd j \<Longrightarrow> j < 2 * n \<Longrightarrow> min n (Suc (j div 2)) = Suc (min n (j div 2))"
  "odd j \<Longrightarrow> Suc (Suc j) < 2 * n \<Longrightarrow>
   min n (Suc (Suc (j div 2))) = Suc (min n (Suc (j div 2)))"
  for j n :: nat
  by (auto simp: min_def elim!: oddE)

lemma position_gap:
  "cursor c (take k (steps_of d port topic c tlog)) =
     printed c (take k (steps_of d port topic c tlog))
     + (if between_fetch_and_write d (Some k) (length (feed d c tlog)) then 1 else 0)"
proof -
  have c0: "k = 0 \<Longrightarrow> ?thesis"
    by (simp add: between_fetch_and_write_def setup_steps_def)
  have c1: "k = Suc 0 \<Longrightarrow> ?thesis"
    by (simp add: between_fetch_and_write_def setup_steps_def steps_of_def setup_events_def)
  have c2: "k = Suc (Suc 0) \<Longrightarrow> ?thesis"
    by (simp add: between_fetch_and_write_def setup_steps_def steps_of_def setup_events_def)
  have c3: "k = Suc (Suc (Suc 0)) \<Longrightarrow> ?thesis"
    by (cases "feed d c tlog")
       (simp_all add: between_fetch_and_write_def setup_steps_def steps_of_def
          setup_events_def rounds_simps)
  have c4: "k = Suc (Suc (Suc (Suc j))) \<Longrightarrow> ?thesis" for j
    by (simp add: between_fetch_and_write_def setup_steps_def steps_of_def
          setup_events_def cursor_take_rounds printed_take_rounds gap_Suc)
  show ?thesis
    using setup_cases_Suc [of k] c0 c1 c2 c3 c4 by blast
qed


lemma run_commits_within:
  assumes "between_fetch_and_write d intr (length (feed d c tlog)) \<Longrightarrow> 1 \<le> dd"
  shows "commits_within dd c (run_events d port topic c tlog intr)"
proof (cases intr)
  case None
  show ?thesis
    by (simp add: None run_events_def Let_def commits_within_append steps_within
          positions_at_end)
next
  case (Some k)
  have t: "commits_within dd c (take k (steps_of d port topic c tlog))"
    by (rule commits_within_take [OF steps_within])
  show ?thesis
    using assms t
    by (auto simp: Some run_events_def Let_def commits_within_append position_gap)
qed

lemma printed_run_gap:
  assumes "between_fetch_and_write d (Some k) (length (feed d c tlog))"
  shows "cursor c (take k (steps_of d port topic c tlog)) =
           printed c (run_events d port topic c tlog (Some k)) + 1"
    and "2 \<le> k"
  using assms position_gap [of c k d port topic tlog]
  by (auto simp: run_events_def Let_def printed_append between_fetch_and_write_def
        setup_steps_def split: if_splits)

subsection \<open>Argument errors\<close>

text \<open>
  C6. For every malformed argument vector the program writes the usage message of
  lines 19 to 24, with the base name of \<^verbatim>\<open>sys.argv[0]\<close> in its first line, to standard
  output and nothing else there, and exits with status 1. When \<^verbatim>\<open>getopt\<close> rejected the
  vector, its message goes to standard error first, after \<^verbatim>\<open>Error: \<close>; a wrong number
  of positional arguments writes nothing to standard error. The broker is not called
  and the stored cursor is left as it was.
\<close>

theorem malformed_usage_exit_1:
  assumes "malformed args"
  shows "fst (main argv0 args tlog intr w) = Exit 1
       \<and> stdout (snd (main argv0 args tlog intr w)) =
           stdout w @
           ''Usage: '' @ basename argv0 @ '' [options] topicname'' @ [nl] @
           '' Options:'' @ [nl] @
           ''  --host Host   Kafka node hostname. Default is '' @ [CHR 0x22] @ ''localhost''
             @ [CHR 0x22] @ '';'' @ [nl] @
           ''  --port Port   Kafka node port number. Default is 9092;'' @ [nl] @
           ''  -b            extract from the beginning;'' @ [nl] @
           ''  -f            output appended data as the topic grows.'' @ [nl]
       \<and> stderr (snd (main argv0 args tlog intr w)) =
           stderr w @
           (case getopt [] args ''bf'' [''host='', ''port=''] of
              Inl exc \<Rightarrow> ''Error: '' @ exc @ [nl]
            | Inr parsed \<Rightarrow> [])
       \<and> trace (snd (main argv0 args tlog intr w)) =
           trace w @ [Write (drop (length (stdout w)) (stdout (snd (main argv0 args tlog intr w))))]
       \<and> committed (snd (main argv0 args tlog intr w)) = committed w"
  using main_malformed [OF assms, of argv0 tlog intr w]
    main_malformed_stderr [OF assms, of argv0 tlog intr w]
  by (simp add: usage_text_def)

theorem malformed_usage_exit_1_witness:
  "malformed [''-x'', ''orders'']
   \<and> fst (main ''/usr/bin/kafcat.py'' [''-x'', ''orders''] [''A''] None (start 0)) = Exit 1
   \<and> stdout (snd (main ''/usr/bin/kafcat.py'' [''-x'', ''orders''] [''A''] None (start 0))) =
       ''Usage: kafcat.py [options] topicname'' @ [nl] @
       '' Options:'' @ [nl] @
       ''  --host Host   Kafka node hostname. Default is '' @ [CHR 0x22] @ ''localhost''
         @ [CHR 0x22] @ '';'' @ [nl] @
       ''  --port Port   Kafka node port number. Default is 9092;'' @ [nl] @
       ''  -b            extract from the beginning;'' @ [nl] @
       ''  -f            output appended data as the topic grows.'' @ [nl]
   \<and> stderr (snd (main ''/usr/bin/kafcat.py'' [''-x'', ''orders''] [''A''] None (start 0))) =
       ''Error: option -x not recognized'' @ [nl]
   \<and> trace (snd (main ''/usr/bin/kafcat.py'' [''-x'', ''orders''] [''A''] None (start 0))) =
       [Write (''Usage: kafcat.py [options] topicname'' @ [nl] @
               '' Options:'' @ [nl] @
               ''  --host Host   Kafka node hostname. Default is '' @ [CHR 0x22] @ ''localhost''
                 @ [CHR 0x22] @ '';'' @ [nl] @
               ''  --port Port   Kafka node port number. Default is 9092;'' @ [nl] @
               ''  -b            extract from the beginning;'' @ [nl] @
               ''  -f            output appended data as the topic grows.'' @ [nl])]
   \<and> malformed [''--host'']
   \<and> fst (main ''kafcat.py'' [''--host''] [''A''] None (start 0)) = Exit 1
   \<and> stderr (snd (main ''kafcat.py'' [''--host''] [''A''] None (start 0))) =
       ''Error: option --host requires argument'' @ [nl]
   \<and> malformed []
   \<and> fst (main ''kafcat.py'' [] [''A''] None (start 0)) = Exit 1
   \<and> stderr (snd (main ''kafcat.py'' [] [''A''] None (start 0))) = []
   \<and> malformed [''orders'', ''payments'']
   \<and> fst (main ''kafcat.py'' [''orders'', ''payments''] [''A''] None (start 0)) = Exit 1
   \<and> stdout (snd (main ''kafcat.py'' [''orders'', ''payments''] [''A''] None (start 0))) =
       ''Usage: kafcat.py [options] topicname'' @ [nl] @
       '' Options:'' @ [nl] @
       ''  --host Host   Kafka node hostname. Default is '' @ [CHR 0x22] @ ''localhost''
         @ [CHR 0x22] @ '';'' @ [nl] @
       ''  --port Port   Kafka node port number. Default is 9092;'' @ [nl] @
       ''  -b            extract from the beginning;'' @ [nl] @
       ''  -f            output appended data as the topic grows.'' @ [nl]"
proof -
  have g1: "getopt [] [''-x'', ''orders''] ''bf'' [''host='', ''port='']
              = Inl ''option -x not recognized''"
    by code_simp
  have g2: "getopt [] [''--host''] ''bf'' [''host='', ''port='']
              = Inl ''option --host requires argument''"
    by code_simp
  have g3: "getopt [] [] ''bf'' [''host='', ''port=''] = Inr ([], [])"
    by code_simp
  have g4: "getopt [] [''orders'', ''payments''] ''bf'' [''host='', ''port='']
              = Inr ([], [''orders'', ''payments''])"
    by code_simp
  have h1: "malformed [''-x'', ''orders'']" by (simp add: malformed_def g1)
  have h2: "malformed [''--host'']" by (simp add: malformed_def g2)
  have h3: "malformed []" by (simp add: malformed_def g3)
  have h4: "malformed [''orders'', ''payments'']" by (simp add: malformed_def g4)
  have b1: "basename ''/usr/bin/kafcat.py'' = ''kafcat.py''" by (simp add: basename_def)
  have b2: "basename ''kafcat.py'' = ''kafcat.py''" by (simp add: basename_def)
  show ?thesis
    using h1 h2 h3 h4
      malformed_usage_exit_1 [OF h1, of "''/usr/bin/kafcat.py''" "[''A'']" None "start 0"]
      malformed_usage_exit_1 [OF h2, of "''kafcat.py''" "[''A'']" None "start 0"]
      malformed_usage_exit_1 [OF h3, of "''kafcat.py''" "[''A'']" None "start 0"]
      malformed_usage_exit_1 [OF h4, of "''kafcat.py''" "[''A'']" None "start 0"]
    by (simp add: start_simps b1 b2 g1 g2 g3 g4)
qed

text \<open>
  C7. For every invalid argument vector (malformed, or with a port that is not an
  integer) the process ends with status 1 and the trace of the run holds no connection
  to the broker.
\<close>

theorem invalid_exit_1_no_connection:
  assumes "invalid args"
  shows "status (fst (main argv0 args tlog intr (start c))) = Some 1
       \<and> filter is_connect (trace (snd (main argv0 args tlog intr (start c)))) = []"
proof (cases "malformed args")
  case True
  from main_malformed [OF True] show ?thesis
    by (simp add: start_simps)
next
  case False
  with assms obtain opt_list topic where
    g: "getopt [] args ''bf'' [''host='', ''port=''] = Inr (opt_list, [topic])" and
    p: "py_int (get (dict opt_list) ''--port'' ''9092'') = None"
    by (auto simp: invalid_def malformed_def length_Suc_conv split: sum.splits prod.splits)
  from main_bad_port [OF g p] show ?thesis
    by (simp add: start_simps)
qed

lemma getopt_port_abc:
  "getopt [] [''--port'', ''abc'', ''orders''] ''bf'' [''host='', ''port='']
     = Inr ([(''--port'', ''abc'')], [''orders''])"
  by code_simp

lemma py_int_abc: "py_int ''abc'' = None"
  by (simp add: py_int_def strip_def isspace_def isdigit_def)

theorem invalid_exit_1_no_connection_witness:
  "invalid [''--port'', ''abc'', ''orders'']
   \<and> status (fst (main ''kafcat.py'' [''--port'', ''abc'', ''orders''] [''A''] None (start 0))) = Some 1
   \<and> filter is_connect
         (trace (snd (main ''kafcat.py'' [''--port'', ''abc'', ''orders''] [''A''] None (start 0)))) = []
   \<and> invalid [''orders'', ''payments'']
   \<and> status (fst (main ''kafcat.py'' [''orders'', ''payments''] [''A''] None (start 0))) = Some 1
   \<and> filter is_connect
         (trace (snd (main ''kafcat.py'' [''orders'', ''payments''] [''A''] None (start 0)))) = []"
proof -
  have h1: "invalid [''--port'', ''abc'', ''orders'']"
    by (simp add: invalid_def getopt_port_abc dict_def get_def py_int_abc)
  have h2: "invalid [''orders'', ''payments'']" by code_simp
  show ?thesis
    using h1 h2
      invalid_exit_1_no_connection [OF h1, of "''kafcat.py''" "[''A'']" None 0]
      invalid_exit_1_no_connection [OF h2, of "''kafcat.py''" "[''A'']" None 0]
    by simp
qed

subsection \<open>Runs with valid arguments\<close>

text \<open>
  The theorems below are about argument vectors that \<^verbatim>\<open>getopt\<close> accepts with one
  positional argument and whose port is an integer; \<open>dict opt_list\<close> is the script's
  \<^verbatim>\<open>cmd_opts\<close>. The broker stores the cursor \<open>c\<close> and the topic holds the messages
  \<open>tlog\<close>, which are all the messages the run can receive.
\<close>

lemma getopt_orders:
  "getopt [] [''orders''] ''bf'' [''host='', ''port=''] = Inr ([], [''orders''])"
  by code_simp

lemma getopt_f_orders:
  "getopt [] [''-f'', ''orders''] ''bf'' [''host='', ''port='']
     = Inr ([(''-f'', [])], [''orders''])"
  by code_simp

lemma getopt_b_orders:
  "getopt [] [''-b'', ''orders''] ''bf'' [''host='', ''port='']
     = Inr ([(''-b'', [])], [''orders''])"
  by code_simp

lemma py_int_9092: "py_int ''9092'' = Some 9092"
  by (simp add: py_int_def strip_def isspace_def isdigit_def digit_val_def)

lemma py_str_9092: "py_str 9092 = ''9092''"
  by (simp add: py_str_def digits.simps)

lemmas option_evals = dict_def get_def has_key_def py_int_9092 py_str_9092

text \<open>
  C8. When the iteration of a one-shot run (no \<^verbatim>\<open>-f\<close>) ends and no interrupt arrives,
  the program commits the consumer's cursor, which stands after the last message of the
  feed, and ends with status 0; the commit is the last event of the run.
\<close>

theorem one_shot_commits_and_exits_0:
  assumes "getopt [] args ''bf'' [''host='', ''port=''] = Inr (opt_list, [topic])"
    and "py_int (get (dict opt_list) ''--port'' ''9092'') = Some port"
    and "\<not> has_key (dict opt_list) ''-f''"
  shows "fst (main argv0 args tlog None (start c)) = Exit 0
       \<and> trace (snd (main argv0 args tlog None (start c))) =
           steps_of (dict opt_list) port topic c tlog
           @ [Commit (cursor c (steps_of (dict opt_list) port topic c tlog))]
       \<and> committed (snd (main argv0 args tlog None (start c))) =
           cursor c (steps_of (dict opt_list) port topic c tlog)
       \<and> cursor c (steps_of (dict opt_list) port topic c tlog) =
           first_pos (dict opt_list) c + length (feed (dict opt_list) c tlog)"
  using assms(3) valid_run [OF assms(1,2), of argv0 tlog None c]
  by (simp add: run_events_def Let_def cursor_steps)

theorem one_shot_commits_and_exits_0_witness:
  "getopt [] [''orders''] ''bf'' [''host='', ''port=''] = Inr ([], [''orders''])
   \<and> py_int (get (dict []) ''--port'' ''9092'') = Some 9092
   \<and> \<not> has_key (dict []) ''-f''
   \<and> fst (main ''kafcat.py'' [''orders''] [''A'', ''B'', ''C''] None (start 1)) = Exit 0
   \<and> trace (snd (main ''kafcat.py'' [''orders''] [''A'', ''B'', ''C''] None (start 1))) =
       [KafkaClient ''localhost:9092'', SimpleConsumer ''kafcat'' ''orders'' (Some (1 / 2)),
        Next ''B'', Write (''B'' @ [nl]), Next ''C'', Write (''C'' @ [nl]), Commit 3]
   \<and> committed (snd (main ''kafcat.py'' [''orders''] [''A'', ''B'', ''C''] None (start 1))) = 3"
proof -
  have h1: "getopt [] [''orders''] ''bf'' [''host='', ''port=''] = Inr ([], [''orders''])"
    by (rule getopt_orders)
  have h2: "py_int (get (dict []) ''--port'' ''9092'') = Some 9092"
    by (simp add: option_evals)
  have h3: "\<not> has_key (dict []) ''-f''"
    by (simp add: option_evals)
  show ?thesis
    using h1 h2 h3
      one_shot_commits_and_exits_0 [OF h1 h2 h3, of "''kafcat.py''" "[''A'', ''B'', ''C'']" 1]
    by (simp add: steps_of_def setup_events_def feed_def first_pos_def iter_timeout_of_def
          rounds_simps option_evals)
qed

text \<open>
  C9. A one-shot run without \<^verbatim>\<open>-b\<close> writes the messages from the stored cursor on
  and commits the position after the last of them; a second such run, started from
  what the first one committed and with the same messages in the topic, writes nothing.
\<close>

theorem one_shot_twice_second_is_empty:
  assumes "getopt [] args ''bf'' [''host='', ''port=''] = Inr (opt_list, [topic])"
    and "py_int (get (dict opt_list) ''--port'' ''9092'') = Some port"
    and "\<not> has_key (dict opt_list) ''-b''"
    and "\<not> has_key (dict opt_list) ''-f''"
  shows "stdout (snd (main argv0 args tlog None (start c))) = lines (drop c tlog)
       \<and> committed (snd (main argv0 args tlog None (start c))) = c + length (drop c tlog)
       \<and> stdout (snd (main argv0 args tlog None
                        (start (committed (snd (main argv0 args tlog None (start c))))))) = []"
proof -
  have c1: "committed (snd (main argv0 args tlog None (start c))) = c + length (drop c tlog)"
    using assms(3,4) valid_run(5) [OF assms(1,2), of argv0 tlog None c]
    by (simp add: cursor_steps first_pos_def feed_def)
  have s: "stdout (snd (main argv0 args tlog None (start q))) = lines (drop q tlog)" for q
    using assms(3,4) valid_run(3) [OF assms(1,2), of argv0 tlog None q]
    by (simp add: written_def feed_def)
  show ?thesis
    by (simp add: c1 s lines_drop_all lines_simps)
qed

theorem one_shot_twice_second_is_empty_witness:
  "getopt [] [''orders''] ''bf'' [''host='', ''port=''] = Inr ([], [''orders''])
   \<and> py_int (get (dict []) ''--port'' ''9092'') = Some 9092
   \<and> \<not> has_key (dict []) ''-b''
   \<and> \<not> has_key (dict []) ''-f''
   \<and> stdout (snd (main ''kafcat.py'' [''orders''] [''A'', ''B'', ''C''] None (start 1))) =
       ''B'' @ [nl] @ ''C'' @ [nl]
   \<and> committed (snd (main ''kafcat.py'' [''orders''] [''A'', ''B'', ''C''] None (start 1))) = 3
   \<and> stdout (snd (main ''kafcat.py'' [''orders''] [''A'', ''B'', ''C''] None (start 3))) = []"
proof -
  have h1: "getopt [] [''orders''] ''bf'' [''host='', ''port=''] = Inr ([], [''orders''])"
    by (rule getopt_orders)
  have h2: "py_int (get (dict []) ''--port'' ''9092'') = Some 9092"
    by (simp add: option_evals)
  have h3: "\<not> has_key (dict []) ''-b''"
    by (simp add: option_evals)
  have h4: "\<not> has_key (dict []) ''-f''"
    by (simp add: option_evals)
  note t = one_shot_twice_second_is_empty
    [OF h1 h2 h3 h4, of "''kafcat.py''" "[''A'', ''B'', ''C'']" 1]
  have a: "stdout (snd (main ''kafcat.py'' [''orders''] [''A'', ''B'', ''C''] None (start 1))) =
             ''B'' @ [nl] @ ''C'' @ [nl]"
    using t by (simp add: lines_simps)
  have b: "committed (snd (main ''kafcat.py'' [''orders''] [''A'', ''B'', ''C''] None (start 1))) = 3"
    using t by simp
  have c: "stdout (snd (main ''kafcat.py'' [''orders''] [''A'', ''B'', ''C''] None (start 3))) = []"
    using t unfolding b by simp
  show ?thesis
    using h1 h2 h3 h4 a b c by simp
qed

text \<open>
  C3. The consumer is built with no timeout when \<^verbatim>\<open>-f\<close> is given and with a timeout
  of 0.5 seconds otherwise. With \<^verbatim>\<open>-f\<close> the run never returns unless it is
  interrupted, and an interrupt ends it with status 130; without \<^verbatim>\<open>-f\<close> the run
  always returns, and when nothing interrupts it, it has written every message of the
  feed and ends with status 0. Time is not modelled: the idle period is the timeout
  handed to the consumer, whose iterator stops when no message is left.
\<close>

theorem follow_hangs_one_shot_returns:
  assumes "getopt [] args ''bf'' [''host='', ''port=''] = Inr (opt_list, [topic])"
    and "py_int (get (dict opt_list) ''--port'' ''9092'') = Some port"
  shows "(fst (main argv0 args tlog intr (start c)) = Hang)
           = (has_key (dict opt_list) ''-f'' \<and> intr = None)
       \<and> (intr \<notin> {Some 0, Some 1} \<longrightarrow>
            trace (snd (main argv0 args tlog intr (start c))) ! 1 =
              SimpleConsumer ''kafcat'' topic
                (if has_key (dict opt_list) ''-f'' then None else Some (1 / 2)))
       \<and> (has_key (dict opt_list) ''-f'' \<and> intr \<noteq> None \<longrightarrow>
            fst (main argv0 args tlog intr (start c)) = Exit 130)
       \<and> (\<not> has_key (dict opt_list) ''-f'' \<and> intr = None \<longrightarrow>
            fst (main argv0 args tlog intr (start c)) = Exit 0
            \<and> stdout (snd (main argv0 args tlog intr (start c))) =
                lines (feed (dict opt_list) c tlog))"
proof -
  note r = valid_run [OF assms, of argv0 tlog intr c]
  have a: "(fst (main argv0 args tlog intr (start c)) = Hang)
             = (has_key (dict opt_list) ''-f'' \<and> intr = None)"
    using r(2) by (simp split: option.splits)
  have b: "trace (snd (main argv0 args tlog intr (start c))) ! 1 =
              SimpleConsumer ''kafcat'' topic
                (if has_key (dict opt_list) ''-f'' then None else Some (1 / 2))"
    if "intr \<notin> {Some 0, Some 1}"
  proof (cases intr)
    case None
    with r(1) show ?thesis
      by (simp add: run_events_def Let_def steps_of_def setup_events_def iter_timeout_of_def)
  next
    case (Some k)
    with that have "2 \<le> k" by (cases k; cases "k - 1") auto
    with Some r(1) show ?thesis
      by (simp add: run_events_def Let_def steps_of_def setup_events_def
            iter_timeout_of_def nth_append)
  qed
  have c: "fst (main argv0 args tlog intr (start c)) = Exit 130"
    if "has_key (dict opt_list) ''-f''" "intr \<noteq> None"
    using that r(2) by auto
  have d: "fst (main argv0 args tlog intr (start c)) = Exit 0
            \<and> stdout (snd (main argv0 args tlog intr (start c))) =
                lines (feed (dict opt_list) c tlog)"
    if "\<not> has_key (dict opt_list) ''-f''" "intr = None"
    using that r(2,3) by (simp add: written_def)
  show ?thesis using a b c d by blast
qed

theorem follow_hangs_one_shot_returns_witness:
  "getopt [] [''-f'', ''orders''] ''bf'' [''host='', ''port='']
     = Inr ([(''-f'', [])], [''orders''])
   \<and> py_int (get (dict [(''-f'', [])]) ''--port'' ''9092'') = Some 9092
   \<and> fst (main ''kafcat.py'' [''-f'', ''orders''] [''A''] None (start 0)) = Hang
   \<and> fst (main ''kafcat.py'' [''-f'', ''orders''] [''A''] (Some 7) (start 0)) = Exit 130
   \<and> trace (snd (main ''kafcat.py'' [''-f'', ''orders''] [''A''] None (start 0))) ! 1 =
       SimpleConsumer ''kafcat'' ''orders'' None
   \<and> getopt [] [''orders''] ''bf'' [''host='', ''port=''] = Inr ([], [''orders''])
   \<and> py_int (get (dict []) ''--port'' ''9092'') = Some 9092
   \<and> fst (main ''kafcat.py'' [''orders''] [''A''] None (start 0)) = Exit 0
   \<and> stdout (snd (main ''kafcat.py'' [''orders''] [''A''] None (start 0))) = ''A'' @ [nl]
   \<and> trace (snd (main ''kafcat.py'' [''orders''] [''A''] None (start 0))) ! 1 =
       SimpleConsumer ''kafcat'' ''orders'' (Some (1 / 2))"
proof -
  have f1: "getopt [] [''-f'', ''orders''] ''bf'' [''host='', ''port='']
              = Inr ([(''-f'', [])], [''orders''])"
    by (rule getopt_f_orders)
  have f2: "py_int (get (dict [(''-f'', [])]) ''--port'' ''9092'') = Some 9092"
    by (simp add: option_evals)
  have h1: "getopt [] [''orders''] ''bf'' [''host='', ''port=''] = Inr ([], [''orders''])"
    by (rule getopt_orders)
  have h2: "py_int (get (dict []) ''--port'' ''9092'') = Some 9092"
    by (simp add: option_evals)
  show ?thesis
    using f1 f2 h1 h2
      follow_hangs_one_shot_returns [OF f1 f2, of "''kafcat.py''" "[''A'']" None 0]
      follow_hangs_one_shot_returns [OF f1 f2, of "''kafcat.py''" "[''A'']" "Some 7" 0]
      follow_hangs_one_shot_returns [OF h1 h2, of "''kafcat.py''" "[''A'']" None 0]
    by (simp add: option_evals feed_def lines_simps)
qed

text \<open>
  C5. The program writes to standard output, for each message the iterator yields and
  in the order it yields them, the payload as it is followed by one newline, and
  nothing else: the output is the concatenation of these lines for the messages the
  run got to write, which are all the messages of the feed when nothing interrupts
  the run. A payload that holds a newline is written as it is.
\<close>

theorem payloads_written_verbatim_in_order:
  assumes "getopt [] args ''bf'' [''host='', ''port=''] = Inr (opt_list, [topic])"
    and "py_int (get (dict opt_list) ''--port'' ''9092'') = Some port"
  shows "stdout (snd (main argv0 args tlog intr (start c))) =
           concat (map (\<lambda>m. m @ [nl])
             (take (written (dict opt_list) intr (length (feed (dict opt_list) c tlog)))
                (feed (dict opt_list) c tlog)))
       \<and> filter is_write (trace (snd (main argv0 args tlog intr (start c)))) =
           map (\<lambda>m. Write (m @ [nl]))
             (take (written (dict opt_list) intr (length (feed (dict opt_list) c tlog)))
                (feed (dict opt_list) c tlog))
       \<and> stdout (snd (main argv0 args tlog None (start c))) =
           concat (map (\<lambda>m. m @ [nl]) (feed (dict opt_list) c tlog))"
  using valid_run(1,3) [OF assms, of argv0 tlog intr c] valid_run(3) [OF assms, of argv0 tlog None c]
  by (simp add: run_writes lines_def written_def)

theorem payloads_written_verbatim_in_order_witness:
  "getopt [] [''-b'', ''orders''] ''bf'' [''host='', ''port='']
     = Inr ([(''-b'', [])], [''orders''])
   \<and> py_int (get (dict [(''-b'', [])]) ''--port'' ''9092'') = Some 9092
   \<and> stdout (snd (main ''kafcat.py'' [''-b'', ''orders''] [''A'', [CHR ''x'', nl, CHR ''y'']] None (start 1)))
       = [CHR ''A'', nl, CHR ''x'', nl, CHR ''y'', nl]
   \<and> filter is_write
         (trace (snd (main ''kafcat.py'' [''-b'', ''orders''] [''A'', [CHR ''x'', nl, CHR ''y'']] None (start 1))))
       = [Write [CHR ''A'', nl], Write [CHR ''x'', nl, CHR ''y'', nl]]
   \<and> stdout (snd (main ''kafcat.py'' [''-b'', ''orders''] [''A'', [CHR ''x'', nl, CHR ''y'']] (Some 7) (start 1)))
       = [CHR ''A'', nl]"
proof -
  have h1: "getopt [] [''-b'', ''orders''] ''bf'' [''host='', ''port='']
              = Inr ([(''-b'', [])], [''orders''])"
    by (rule getopt_b_orders)
  have h2: "py_int (get (dict [(''-b'', [])]) ''--port'' ''9092'') = Some 9092"
    by (simp add: option_evals)
  show ?thesis
    using h1 h2
      payloads_written_verbatim_in_order
        [OF h1 h2, of "''kafcat.py''" "[''A'', [CHR ''x'', nl, CHR ''y'']]" None 1]
      payloads_written_verbatim_in_order
        [OF h1 h2, of "''kafcat.py''" "[''A'', [CHR ''x'', nl, CHR ''y'']]" "Some 7" 1]
    by (simp add: option_evals feed_def written_def setup_steps_def)
qed

text \<open>
  C4. An interrupt that arrives while the run is still going (always, with \<^verbatim>\<open>-f\<close>;
  before the last step, without) ends it with status 130. No further message is
  fetched or written: the events of the run are those of the steps completed before
  the interrupt, followed, when the consumer was built (two steps completed), by one
  commit of the consumer's cursor, which is then the stored cursor. When the consumer
  was not built yet, nothing is committed and the stored cursor is unchanged.
\<close>

theorem interrupt_commits_cursor_exits_130:
  assumes "getopt [] args ''bf'' [''host='', ''port=''] = Inr (opt_list, [topic])"
    and "py_int (get (dict opt_list) ''--port'' ''9092'') = Some port"
    and "has_key (dict opt_list) ''-f''
         \<or> k < run_steps (dict opt_list) (length (feed (dict opt_list) c tlog))"
  shows "fst (main argv0 args tlog (Some k) (start c)) = Exit 130
       \<and> trace (snd (main argv0 args tlog (Some k) (start c))) =
           take k (steps_of (dict opt_list) port topic c tlog)
           @ (if k < 2 then []
              else [Commit (cursor c (take k (steps_of (dict opt_list) port topic c tlog)))])
       \<and> committed (snd (main argv0 args tlog (Some k) (start c))) =
           (if k < 2 then c
            else cursor c (take k (steps_of (dict opt_list) port topic c tlog)))
       \<and> (k < 2 \<longrightarrow>
            filter is_commit (trace (snd (main argv0 args tlog (Some k) (start c)))) = [])"
  using assms(3) valid_run(1,2,5) [OF assms(1,2), of argv0 tlog "Some k" c]
  by (auto simp: run_events_def Let_def steps_no_commit_before_consumer)

theorem interrupt_commits_cursor_exits_130_witness:
  "getopt [] [''-f'', ''orders''] ''bf'' [''host='', ''port='']
     = Inr ([(''-f'', [])], [''orders''])
   \<and> py_int (get (dict [(''-f'', [])]) ''--port'' ''9092'') = Some 9092
   \<and> has_key (dict [(''-f'', [])]) ''-f''
   \<and> fst (main ''kafcat.py'' [''-f'', ''orders''] [''A'', ''B''] (Some 5) (start 0)) = Exit 130
   \<and> trace (snd (main ''kafcat.py'' [''-f'', ''orders''] [''A'', ''B''] (Some 5) (start 0))) =
       [KafkaClient ''localhost:9092'', SimpleConsumer ''kafcat'' ''orders'' None,
        Next ''A'', Write (''A'' @ [nl]), Next ''B'', Commit 2]
   \<and> committed (snd (main ''kafcat.py'' [''-f'', ''orders''] [''A'', ''B''] (Some 5) (start 0))) = 2
   \<and> fst (main ''kafcat.py'' [''-f'', ''orders''] [''A'', ''B''] (Some 1) (start 7)) = Exit 130
   \<and> trace (snd (main ''kafcat.py'' [''-f'', ''orders''] [''A'', ''B''] (Some 1) (start 7))) =
       [KafkaClient ''localhost:9092'']
   \<and> committed (snd (main ''kafcat.py'' [''-f'', ''orders''] [''A'', ''B''] (Some 1) (start 7))) = 7"
proof -
  have h1: "getopt [] [''-f'', ''orders''] ''bf'' [''host='', ''port='']
              = Inr ([(''-f'', [])], [''orders''])"
    by (rule getopt_f_orders)
  have h2: "py_int (get (dict [(''-f'', [])]) ''--port'' ''9092'') = Some 9092"
    by (simp add: option_evals)
  have h3: "has_key (dict [(''-f'', [])]) ''-f''"
    by (simp add: option_evals)
  have h4: "has_key (dict [(''-f'', [])]) ''-f''
            \<or> k < run_steps (dict [(''-f'', [])]) (length (feed (dict [(''-f'', [])]) c [''A'', ''B'']))"
    for k c
    using h3 by simp
  show ?thesis
    using h1 h2 h3
      interrupt_commits_cursor_exits_130 [OF h1 h2 h4 [of 5 0], where ?argv0.0 = "''kafcat.py''"]
      interrupt_commits_cursor_exits_130 [OF h1 h2 h4 [of 1 7], where ?argv0.0 = "''kafcat.py''"]
    by (simp add: steps_of_def setup_events_def feed_def iter_timeout_of_def rounds_simps
          option_evals)
qed

text \<open>
  C2. With \<^verbatim>\<open>-b\<close>, in every run that gets past the set-up, the first four events are
  the connection, the construction of the consumer, \<^verbatim>\<open>seek(0, 0)\<close> and a commit of
  position 0, whatever cursor was stored; every write comes after them and no other
  seek follows. Without \<^verbatim>\<open>-b\<close> no run has a seek, and its only commit, if any, is the
  one that ends it. The script makes one \<^verbatim>\<open>seek(0, 0)\<close> call; that it applies to every
  partition is the library's part.
\<close>

theorem seek_and_commit_iff_b:
  assumes "getopt [] args ''bf'' [''host='', ''port=''] = Inr (opt_list, [topic])"
    and "py_int (get (dict opt_list) ''--port'' ''9092'') = Some port"
  shows "(has_key (dict opt_list) ''-b'' \<and> intr \<notin> {Some 0, Some 1, Some 2, Some 3} \<longrightarrow>
            take 4 (trace (snd (main argv0 args tlog intr (start c)))) =
              [KafkaClient (get (dict opt_list) ''--host'' ''localhost'' @ '':'' @ py_str port),
               SimpleConsumer ''kafcat'' topic (iter_timeout_of (dict opt_list)),
               Seek 0 0, Commit 0]
            \<and> filter is_seek (drop 4 (trace (snd (main argv0 args tlog intr (start c))))) = [])
       \<and> (\<not> has_key (dict opt_list) ''-b'' \<longrightarrow>
            filter is_seek (trace (snd (main argv0 args tlog intr (start c)))) = []
            \<and> length (filter is_commit (trace (snd (main argv0 args tlog intr (start c))))) \<le> 1)"
proof -
  note r = valid_run(1) [OF assms, of argv0 tlog intr c]
  have b: "take 4 (run_events (dict opt_list) port topic c tlog intr) =
              [KafkaClient (get (dict opt_list) ''--host'' ''localhost'' @ '':'' @ py_str port),
               SimpleConsumer ''kafcat'' topic (iter_timeout_of (dict opt_list)),
               Seek 0 0, Commit 0]
           \<and> filter is_seek (drop 4 (run_events (dict opt_list) port topic c tlog intr)) = []"
    if hb: "has_key (dict opt_list) ''-b''" and hi: "intr \<notin> {Some 0, Some 1, Some 2, Some 3}"
  proof (cases intr)
    case None
    then show ?thesis
      by (simp add: run_events_def Let_def steps_of_def setup_b(1) [OF hb] rounds_no_seek)
  next
    case (Some k)
    with hi obtain j where "k = Suc (Suc (Suc (Suc j)))"
      using past_setup by blast
    then show ?thesis
      by (simp add: Some run_events_def Let_def steps_of_def setup_b(1) [OF hb]
            rounds_no_seek filter_take_Nil)
  qed
  have nb: "filter is_seek (run_events (dict opt_list) port topic c tlog intr) = []
            \<and> length (filter is_commit (run_events (dict opt_list) port topic c tlog intr)) \<le> 1"
    if hb: "\<not> has_key (dict opt_list) ''-b''"
  proof (cases intr)
    case None
    then show ?thesis
      by (simp add: run_events_def Let_def steps_of_def setup_b(2) [OF hb] rounds_no_seek
            rounds_no_commit)
  next
    case (Some k)
    have s: "filter is_seek (steps_of (dict opt_list) port topic c tlog) = []"
      by (simp add: steps_of_def setup_b(2) [OF hb] rounds_no_seek)
    have m: "filter is_commit (steps_of (dict opt_list) port topic c tlog) = []"
      by (simp add: steps_of_def setup_b(2) [OF hb] rounds_no_commit)
    show ?thesis
      by (simp add: Some run_events_def Let_def filter_take_Nil [OF s] filter_take_Nil [OF m])
  qed
  show ?thesis using b nb by (simp add: r)
qed

theorem seek_and_commit_iff_b_witness:
  "getopt [] [''-b'', ''orders''] ''bf'' [''host='', ''port='']
     = Inr ([(''-b'', [])], [''orders''])
   \<and> py_int (get (dict [(''-b'', [])]) ''--port'' ''9092'') = Some 9092
   \<and> has_key (dict [(''-b'', [])]) ''-b''
   \<and> take 4 (trace (snd (main ''kafcat.py'' [''-b'', ''orders''] [''A''] None (start 5)))) =
       [KafkaClient ''localhost:9092'', SimpleConsumer ''kafcat'' ''orders'' (Some (1 / 2)),
        Seek 0 0, Commit 0]
   \<and> filter is_seek
         (drop 4 (trace (snd (main ''kafcat.py'' [''-b'', ''orders''] [''A''] None (start 5))))) = []
   \<and> getopt [] [''orders''] ''bf'' [''host='', ''port=''] = Inr ([], [''orders''])
   \<and> py_int (get (dict []) ''--port'' ''9092'') = Some 9092
   \<and> \<not> has_key (dict []) ''-b''
   \<and> filter is_seek (trace (snd (main ''kafcat.py'' [''orders''] [''A''] None (start 5)))) = []
   \<and> length (filter is_commit
         (trace (snd (main ''kafcat.py'' [''orders''] [''A''] None (start 5))))) \<le> 1"
proof -
  have b1: "getopt [] [''-b'', ''orders''] ''bf'' [''host='', ''port='']
              = Inr ([(''-b'', [])], [''orders''])"
    by (rule getopt_b_orders)
  have b2: "py_int (get (dict [(''-b'', [])]) ''--port'' ''9092'') = Some 9092"
    by (simp add: option_evals)
  have b3: "has_key (dict [(''-b'', [])]) ''-b''"
    by (simp add: option_evals)
  have h1: "getopt [] [''orders''] ''bf'' [''host='', ''port=''] = Inr ([], [''orders''])"
    by (rule getopt_orders)
  have h2: "py_int (get (dict []) ''--port'' ''9092'') = Some 9092"
    by (simp add: option_evals)
  have h3: "\<not> has_key (dict []) ''-b''"
    by (simp add: option_evals)
  show ?thesis
    using b1 b2 b3 h1 h2 h3
      seek_and_commit_iff_b [OF b1 b2, of None "''kafcat.py''" "[''A'']" 5]
      seek_and_commit_iff_b [OF h1 h2, of None "''kafcat.py''" "[''A'']" 5]
    by (simp add: iter_timeout_of_def option_evals)
qed

subsection \<open>Repeated options\<close>




subsection \<open>The committed cursor and the output\<close>

text \<open>
  As C1 states it, no commit ever stores a position ahead of what was written. A run
  that is interrupted after the iterator has yielded a message and before line 55
  has written it commits, in the handler, the cursor that already stands past that
  message: with one message in the topic and the interrupt after three steps, nothing
  is written and position 1 is committed.
\<close>

theorem commit_ahead_of_output_counterexample:
  "stdout (snd (main ''kafcat.py'' [''orders''] [''A''] (Some 3) (start 0))) = []
   \<and> committed (snd (main ''kafcat.py'' [''orders''] [''A''] (Some 3) (start 0))) = 1
   \<and> \<not> commits_within 0 0 (trace (snd (main ''kafcat.py'' [''orders''] [''A''] (Some 3) (start 0))))"
proof -
  have h2: "py_int (get (dict []) ''--port'' ''9092'') = Some 9092"
    by (simp add: option_evals)
  show ?thesis
    using valid_run(1,3,5) [OF getopt_orders h2, of "''kafcat.py''" "[''A'']" "Some 3" 0]
    by (simp add: run_events_def Let_def steps_of_def setup_events_def feed_def rounds_simps
          written_def setup_steps_def lines_simps option_evals)
qed

text \<open>
  C1, amended. Every commit of a run stores the consumer's cursor, which is never
  behind the output and at most one message ahead of it. It is exactly the position
  after the last message written (the earliest offset after a reset with nothing
  written, the stored cursor when nothing happened yet) in every run but one that is
  interrupted between the fetch of a message and its write; in such a run the
  committed position is one past the output.
\<close>

theorem commits_at_most_one_ahead:
  assumes "getopt [] args ''bf'' [''host='', ''port=''] = Inr (opt_list, [topic])"
    and "py_int (get (dict opt_list) ''--port'' ''9092'') = Some port"
  shows "commits_within 1 c (trace (snd (main argv0 args tlog intr (start c))))
       \<and> (\<not> between_fetch_and_write (dict opt_list) intr (length (feed (dict opt_list) c tlog)) \<longrightarrow>
            commits_within 0 c (trace (snd (main argv0 args tlog intr (start c)))))
       \<and> (between_fetch_and_write (dict opt_list) intr (length (feed (dict opt_list) c tlog)) \<longrightarrow>
            committed (snd (main argv0 args tlog intr (start c))) =
              printed c (trace (snd (main argv0 args tlog intr (start c)))) + 1)"
proof -
  note r = valid_run(1,5) [OF assms, of argv0 tlog intr c]
  have a: "commits_within 1 c (run_events (dict opt_list) port topic c tlog intr)"
    by (rule run_commits_within) simp
  have b: "commits_within 0 c (run_events (dict opt_list) port topic c tlog intr)"
    if "\<not> between_fetch_and_write (dict opt_list) intr (length (feed (dict opt_list) c tlog))"
    using that by (intro run_commits_within) simp
  have g: "committed (snd (main argv0 args tlog intr (start c))) =
             printed c (run_events (dict opt_list) port topic c tlog intr) + 1"
    if h: "between_fetch_and_write (dict opt_list) intr (length (feed (dict opt_list) c tlog))"
  proof -
    from h obtain k where k: "intr = Some k"
      by (cases intr) (simp_all add: between_fetch_and_write_def)
    from h k have h': "between_fetch_and_write (dict opt_list) (Some k)
                         (length (feed (dict opt_list) c tlog))"
      by simp
    from printed_run_gap [OF h'] r(2) k show ?thesis
      by simp
  qed
  show ?thesis using a b g by (simp add: r(1))
qed

theorem commits_at_most_one_ahead_witness:
  "getopt [] [''-b'', ''orders''] ''bf'' [''host='', ''port='']
     = Inr ([(''-b'', [])], [''orders''])
   \<and> py_int (get (dict [(''-b'', [])]) ''--port'' ''9092'') = Some 9092
   \<and> commits_within 1 5 (trace (snd (main ''kafcat.py'' [''-b'', ''orders''] [''A'', ''B''] None (start 5))))
   \<and> commits_within 0 5 (trace (snd (main ''kafcat.py'' [''-b'', ''orders''] [''A'', ''B''] None (start 5))))
   \<and> commits_within 1 5 (trace (snd (main ''kafcat.py'' [''-b'', ''orders''] [''A'', ''B''] (Some 7) (start 5))))
   \<and> committed (snd (main ''kafcat.py'' [''-b'', ''orders''] [''A'', ''B''] (Some 7) (start 5))) =
       printed 5 (trace (snd (main ''kafcat.py'' [''-b'', ''orders''] [''A'', ''B''] (Some 7) (start 5)))) + 1"
proof -
  have h1: "getopt [] [''-b'', ''orders''] ''bf'' [''host='', ''port='']
              = Inr ([(''-b'', [])], [''orders''])"
    by (rule getopt_b_orders)
  have h2: "py_int (get (dict [(''-b'', [])]) ''--port'' ''9092'') = Some 9092"
    by (simp add: option_evals)
  have n: "\<not> between_fetch_and_write (dict [(''-b'', [])]) None
               (length (feed (dict [(''-b'', [])]) 5 [''A'', ''B'']))"
    by (simp add: between_fetch_and_write_def)
  have y: "between_fetch_and_write (dict [(''-b'', [])]) (Some 7)
               (length (feed (dict [(''-b'', [])]) 5 [''A'', ''B'']))"
    by (simp add: between_fetch_and_write_def setup_steps_def feed_def option_evals)
  show ?thesis
    using h1 h2 n y
      commits_at_most_one_ahead [OF h1 h2, of 5 "''kafcat.py''" "[''A'', ''B'']" None]
      commits_at_most_one_ahead [OF h1 h2, of 5 "''kafcat.py''" "[''A'', ''B'']" "Some 7"]
    by simp
qed

end
